theory Spec2Isabelle
  imports Main "HOL-Library.Sublist" "HOL-Library.Word"
begin

section \<open>Go values and the collaborators of gofsutil\_mount\_linux.go\<close>

text \<open>
  A Go string is a sequence of bytes: \<^typ>\<open>string\<close>, a list of 8-bit characters. A Go
  \<^verbatim>\<open>error\<close> is either \<^verbatim>\<open>nil\<close> (\<^term>\<open>None\<close>) or an error value. The file
  builds error values of its own with \<^verbatim>\<open>fmt.Errorf\<close> only, and without the
  wrapping verb; every other error value it returns was handed to it by a collaborator.
  Both kinds carry the text that their \<^verbatim>\<open>Error()\<close> method prints.
\<close>

datatype error = Collaborator string | Errorf string

fun Error :: "error \<Rightarrow> string" where
  "Error (Collaborator m) = m"
| "Error (Errorf m) = m"

definition procMountsPath :: string where
  "procMountsPath = ''/proc/self/mountinfo''"

definition procMountsRetries :: nat where
  "procMountsRetries = 3"

definition bindRemountOpts :: "string list" where
  "bindRemountOpts = [''remount'']"

text \<open>
  Everything the file does to the host goes through six calls whose code is elsewhere:
  \<^verbatim>\<open>exec.Command(name, args...).CombinedOutput()\<close> and \<^verbatim>\<open>.Run()\<close>, the package's
  mount primitives \<^verbatim>\<open>fs.mount\<close> and \<^verbatim>\<open>fs.doMount\<close>, \<^verbatim>\<open>os.Open\<close>, and the
  package's parser \<^verbatim>\<open>ReadProcMountsFrom\<close>, followed by the deferred \<^verbatim>\<open>file.Close()\<close>.
  A call is recorded with its arguments, in the order in which it is made. The
  \<^verbatim>\<open>context.Context\<close> handed through, the fixed configuration \<^verbatim>\<open>ProcMountsFields\<close>
  and \<^verbatim>\<open>fs.ScanEntry\<close>, and the logging statements have no part in any result and are
  left out.
\<close>

datatype 'f call =
    ExecCombinedOutput string "string list"
  | ExecRun string "string list"
  | FsMount string string string "string list"
  | FsDoMount string string string string "string list"
  | OsOpen string
  | ReadFrom 'f bool
  | FileClose 'f

text \<open>
  The host is a parameter: what a call answers may depend on every call made before it
  (the history) and on its arguments. \<^typ>\<open>'f\<close> is the type of open files and
  \<^typ>\<open>'i\<close> the type \<^verbatim>\<open>Info\<close> of parsed mount entries, both declared outside this
  file. \<^verbatim>\<open>fmt_q\<close> is the rendering of a string by the verb \<^verbatim>\<open>%q\<close> of Go's
  \<^verbatim>\<open>fmt\<close> package (\<^verbatim>\<open>strconv.Quote\<close>).
\<close>

record ('f, 'i) env =
  exec_CombinedOutput :: "'f call list \<Rightarrow> string \<Rightarrow> string list \<Rightarrow> string \<times> error option"
  exec_Run :: "'f call list \<Rightarrow> string \<Rightarrow> string list \<Rightarrow> error option"
  fs_mount :: "'f call list \<Rightarrow> string \<Rightarrow> string \<Rightarrow> string \<Rightarrow> string list \<Rightarrow> error option"
  fs_doMount ::
    "'f call list \<Rightarrow> string \<Rightarrow> string \<Rightarrow> string \<Rightarrow> string \<Rightarrow> string list \<Rightarrow> error option"
  os_Open :: "'f call list \<Rightarrow> string \<Rightarrow> error + 'f"
  ReadProcMountsFrom :: "'f call list \<Rightarrow> 'f \<Rightarrow> bool \<Rightarrow> 'i list \<times> 32 word \<times> error option"
  fmt_q :: "string \<Rightarrow> string"

section \<open>Library functions of Go that the file calls\<close>

text \<open>
  \<^verbatim>\<open>strings.TrimSpace\<close> removes the leading and the trailing white space of a string,
  white space being the runes of \<^verbatim>\<open>unicode.IsSpace\<close>: tab, line feed, vertical tab,
  form feed, carriage return, space, U+0085, U+00A0, U+1680, U+2000 to U+200A, U+2028,
  U+2029, U+202F, U+205F and U+3000. On the bytes of the string these are the UTF-8
  encodings below. No encoding is the beginning or the end of another one, and a byte
  sequence that is not a valid encoding decodes to U+FFFD, which is not white space; so
  the first (last) rune of a string is white space exactly when one of the encodings
  begins (ends) the string.
\<close>

definition spaceEncodings :: "string list" where
  "spaceEncodings =
     [[CHR 0x09], [CHR 0x0A], [CHR 0x0B], [CHR 0x0C], [CHR 0x0D], [CHR 0x20],
      [CHR 0xC2, CHR 0x85], [CHR 0xC2, CHR 0xA0],
      [CHR 0xE1, CHR 0x9A, CHR 0x80],
      [CHR 0xE2, CHR 0x80, CHR 0x80], [CHR 0xE2, CHR 0x80, CHR 0x81],
      [CHR 0xE2, CHR 0x80, CHR 0x82], [CHR 0xE2, CHR 0x80, CHR 0x83],
      [CHR 0xE2, CHR 0x80, CHR 0x84], [CHR 0xE2, CHR 0x80, CHR 0x85],
      [CHR 0xE2, CHR 0x80, CHR 0x86], [CHR 0xE2, CHR 0x80, CHR 0x87],
      [CHR 0xE2, CHR 0x80, CHR 0x88], [CHR 0xE2, CHR 0x80, CHR 0x89],
      [CHR 0xE2, CHR 0x80, CHR 0x8A],
      [CHR 0xE2, CHR 0x80, CHR 0xA8], [CHR 0xE2, CHR 0x80, CHR 0xA9],
      [CHR 0xE2, CHR 0x80, CHR 0xAF],
      [CHR 0xE2, CHR 0x81, CHR 0x9F],
      [CHR 0xE3, CHR 0x80, CHR 0x80]]"

definition leadingSpace :: "string \<Rightarrow> nat" where
  "leadingSpace s =
     (case find (\<lambda>e. prefix e s) spaceEncodings of None \<Rightarrow> 0 | Some e \<Rightarrow> length e)"

definition trailingSpace :: "string \<Rightarrow> nat" where
  "trailingSpace s =
     (case find (\<lambda>e. suffix e s) spaceEncodings of None \<Rightarrow> 0 | Some e \<Rightarrow> length e)"

lemma leadingSpace_le: "leadingSpace s \<le> length s"
  by (auto simp: leadingSpace_def find_Some_iff prefix_def split: option.splits)

lemma trailingSpace_le: "trailingSpace s \<le> length s"
  by (auto simp: trailingSpace_def find_Some_iff suffix_def split: option.splits)

function TrimLeft :: "string \<Rightarrow> string" where
  "TrimLeft s = (if leadingSpace s = 0 then s else TrimLeft (drop (leadingSpace s) s))"
  by pat_completeness auto
termination
proof (relation "measure length")
  show "wf (measure length)" by simp
next
  fix s :: string
  assume "leadingSpace s \<noteq> 0"
  moreover have "leadingSpace s \<le> length s" by (rule leadingSpace_le)
  ultimately show "(drop (leadingSpace s) s, s) \<in> measure length" by simp
qed

declare TrimLeft.simps [simp del]

function TrimRight :: "string \<Rightarrow> string" where
  "TrimRight s =
     (if trailingSpace s = 0 then s else TrimRight (take (length s - trailingSpace s) s))"
  by pat_completeness auto
termination
proof (relation "measure length")
  show "wf (measure length)" by simp
next
  fix s :: string
  assume "trailingSpace s \<noteq> 0"
  moreover have "trailingSpace s \<le> length s" by (rule trailingSpace_le)
  ultimately show "(take (length s - trailingSpace s) s, s) \<in> measure length" by simp
qed

declare TrimRight.simps [simp del]

definition TrimSpace :: "string \<Rightarrow> string" where
  "TrimSpace s = TrimRight (TrimLeft s)"

text \<open>A string of white space only: it is empty, or its first rune is white space and so
  is the rest.\<close>

function onlySpace :: "string \<Rightarrow> bool" where
  "onlySpace s =
     (if s = [] then True
      else if leadingSpace s = 0 then False
      else onlySpace (drop (leadingSpace s) s))"
  by pat_completeness auto
termination
proof (relation "measure length")
  show "wf (measure length)" by simp
next
  fix s :: string
  assume "s \<noteq> []" "leadingSpace s \<noteq> 0"
  then show "(drop (leadingSpace s) s, s) \<in> measure length" by simp
qed

declare onlySpace.simps [simp del]

text \<open>The verb \<^verbatim>\<open>%d\<close> of \<^verbatim>\<open>fmt\<close> on a number that is not negative: its decimal
  digits.\<close>

definition digit :: "nat \<Rightarrow> char" where
  "digit d = ''0123456789'' ! d"

function fmt_d :: "nat \<Rightarrow> string" where
  "fmt_d n = (if n < 10 then [digit n] else fmt_d (n div 10) @ [digit (n mod 10)])"
  by pat_completeness auto
termination
  by (relation "measure id") auto

declare fmt_d.simps [simp del]

section \<open>The disk format probe\<close>

text \<open>\<^verbatim>\<open>getDiskFormat\<close> (lines 25 to 54): one run of \<^verbatim>\<open>blkid\<close>, whose output and
  error decide the answer.\<close>

definition getDiskFormat ::
  "('f, 'i) env \<Rightarrow> string \<Rightarrow> 'f call list \<Rightarrow> (string \<times> error option) \<times> 'f call list" where
  "getDiskFormat E disk tr =
     (let args = [''-s'', ''TYPE'', ''-o'', ''value'', disk];
          (buf, err) = exec_CombinedOutput E tr ''blkid'' args;
          tr1 = tr @ [ExecCombinedOutput ''blkid'' args];
          out = buf
      in if err \<noteq> None then (('''', None), tr1)
         else
           let fsType = TrimSpace out
           in if fsType \<noteq> '''' then ((fsType, None), tr1)
              else (('''', None), tr1))"

section \<open>Format and mount\<close>

text \<open>The branch of \<^verbatim>\<open>formatAndMount\<close> for an unformatted disk (lines 75 to 101):
  choose the type, build the arguments, run \<^verbatim>\<open>mkfs.<fsType>\<close>, then mount.\<close>

definition formatUnformatted ::
  "('f, 'i) env \<Rightarrow> string \<Rightarrow> string \<Rightarrow> string \<Rightarrow> string list \<Rightarrow> 'f call list
     \<Rightarrow> error option \<times> 'f call list" where
  "formatUnformatted E source target fsType opts tr =
     (let args = [source];
          fsType = (if length fsType = 0 then ''ext4'' else fsType);
          args = (if fsType = ''ext4'' \<or> fsType = ''ext3'' then [''-F'', source] else args);
          mkfsCmd = ''mkfs.'' @ fsType;
          err = exec_Run E tr mkfsCmd args;
          tr1 = tr @ [ExecRun mkfsCmd args]
      in case err of
           Some e \<Rightarrow> (Some e, tr1)
         | None \<Rightarrow>
             (fs_mount E tr1 source target fsType opts,
              tr1 @ [FsMount source target fsType opts]))"

text \<open>The rest of \<^verbatim>\<open>formatAndMount\<close>, for a disk that has a filesystem (lines 103 to
  119): mount, and classify a failure.\<close>

definition mountFormatted ::
  "('f, 'i) env \<Rightarrow> string \<Rightarrow> string \<Rightarrow> string \<Rightarrow> string list \<Rightarrow> string \<Rightarrow> 'f call list
     \<Rightarrow> error option \<times> 'f call list" where
  "mountFormatted E source target fsType opts existingFormat tr =
     (let mountErr = fs_mount E tr source target fsType opts;
          tr1 = tr @ [FsMount source target fsType opts]
      in case mountErr of
           None \<Rightarrow> (None, tr1)
         | Some me \<Rightarrow>
             if length fsType = 0 \<or> fsType = existingFormat then (Some me, tr1)
             else
               (Some (Errorf (''failed to mount volume as '' @ fmt_q E fsType
                   @ ''; already contains '' @ existingFormat
                   @ '': error: '' @ Error me)), tr1))"

text \<open>\<^verbatim>\<open>formatAndMount\<close> (lines 57 to 120): append \<^verbatim>\<open>defaults\<close>, probe, return the
  probe's error if it has one, and go on with one of the two branches.\<close>

definition formatAndMount ::
  "('f, 'i) env \<Rightarrow> string \<Rightarrow> string \<Rightarrow> string \<Rightarrow> string list \<Rightarrow> 'f call list
     \<Rightarrow> error option \<times> 'f call list" where
  "formatAndMount E source target fsType opts tr =
     (let opts = opts @ [''defaults''];
          ((existingFormat, err), tr1) = getDiskFormat E source tr
      in case err of
           Some e \<Rightarrow> (Some e, tr1)
         | None \<Rightarrow>
             if existingFormat = '''' then formatUnformatted E source target fsType opts tr1
             else mountFormatted E source target fsType opts existingFormat tr1)"

section \<open>Bind mount\<close>

text \<open>\<^verbatim>\<open>bindMount\<close> (lines 123 to 133): two calls of \<^verbatim>\<open>fs.doMount\<close>, the second
  only after the first has returned \<^verbatim>\<open>nil\<close>.\<close>

definition bindMount ::
  "('f, 'i) env \<Rightarrow> string \<Rightarrow> string \<Rightarrow> string list \<Rightarrow> 'f call list
     \<Rightarrow> error option \<times> 'f call list" where
  "bindMount E source target opts tr =
     (let err = fs_doMount E tr ''mount'' source target '''' [''bind''];
          tr1 = tr @ [FsDoMount ''mount'' source target '''' [''bind'']]
      in case err of
           Some e \<Rightarrow> (Some e, tr1)
         | None \<Rightarrow>
             (fs_doMount E tr1 ''mount'' source target '''' opts,
              tr1 @ [FsDoMount ''mount'' source target '''' opts]))"

section \<open>The mount table\<close>

text \<open>\<^verbatim>\<open>readProcMounts\<close> (lines 161 to 173): open the file; on an error return
  \<^verbatim>\<open>nil, 0, err\<close>; otherwise parse it (quick when no entries are asked for) and close it
  on the way out.\<close>

definition readProcMounts ::
  "('f, 'i) env \<Rightarrow> string \<Rightarrow> bool \<Rightarrow> 'f call list
     \<Rightarrow> ('i list \<times> 32 word \<times> error option) \<times> 'f call list" where
  "readProcMounts E path info tr =
     (case os_Open E tr path of
        Inl err \<Rightarrow> (([], 0, Some err), tr @ [OsOpen path])
      | Inr file \<Rightarrow>
          (ReadProcMountsFrom E (tr @ [OsOpen path]) file (\<not> info),
           tr @ [OsOpen path, ReadFrom file (\<not> info), FileClose file]))"

text \<open>The loop of \<^verbatim>\<open>getMounts\<close> (lines 143 to 156), with its counter \<^verbatim>\<open>i\<close> and the
  fingerprint \<^verbatim>\<open>hash1\<close> of the read before.\<close>

function getMounts_loop ::
  "('f, 'i) env \<Rightarrow> nat \<Rightarrow> 32 word \<Rightarrow> 'f call list
     \<Rightarrow> ('i list \<times> error option) \<times> 'f call list" where
  "getMounts_loop E i hash1 tr =
     (if i < procMountsRetries then
        (case readProcMounts E procMountsPath True tr of
           ((mps, hash2, Some err), tr1) \<Rightarrow> (([], Some err), tr1)
         | ((mps, hash2, None), tr1) \<Rightarrow>
             if hash1 = hash2 then ((mps, None), tr1)
             else getMounts_loop E (i + 1) hash2 tr1)
      else
        (([], Some (Errorf (''failed to get a consistent snapshot of '' @ procMountsPath
            @ '' after '' @ fmt_d procMountsRetries @ '' tries''))), tr))"
  by pat_completeness auto
termination
  by (relation "measure (\<lambda>(E, i, hash1, tr). procMountsRetries - i)") auto

declare getMounts_loop.simps [simp del]

text \<open>\<^verbatim>\<open>getMounts\<close> (lines 136 to 157): a first read for the fingerprint alone, then the
  loop.\<close>

definition getMounts ::
  "('f, 'i) env \<Rightarrow> 'f call list \<Rightarrow> ('i list \<times> error option) \<times> 'f call list" where
  "getMounts E tr =
     (case readProcMounts E procMountsPath False tr of
        ((mps, hash1, Some err), tr1) \<Rightarrow> (([], Some err), tr1)
      | ((mps, hash1, None), tr1) \<Rightarrow> getMounts_loop E 0 hash1 tr1)"

section \<open>A host with fixed answers\<close>

text \<open>For evaluating the functions on concrete inputs: a host that answers every probe,
  every format and every mount in the same way, lets \<^verbatim>\<open>fs.doMount\<close> fail (or not) on
  the option list \<^verbatim>\<open>bind\<close> alone, opens every file, and fingerprints the mount table by
  a function of the number of calls made so far. Its \<^verbatim>\<open>%q\<close> puts the string between
  double quotes, which is what Go does for a string of plain letters and digits.\<close>

definition scripted ::
  "string \<times> error option \<Rightarrow> error option \<Rightarrow> error option \<Rightarrow> error option \<Rightarrow> (nat \<Rightarrow> 32 word)
     \<Rightarrow> (nat, string) env" where
  "scripted probe mkfs mnt bind fp =
     \<lparr> exec_CombinedOutput = (\<lambda>tr name args. probe),
       exec_Run = (\<lambda>tr name args. mkfs),
       fs_mount = (\<lambda>tr source target fsType opts. mnt),
       fs_doMount = (\<lambda>tr cmd source target fsType opts. if opts = [''bind''] then bind else None),
       os_Open = (\<lambda>tr path. Inr (length tr)),
       ReadProcMountsFrom =
         (\<lambda>tr file quick. (if quick then [] else [''rootfs / rootfs rw''], fp (length tr), None)),
       fmt_q = (\<lambda>s. [CHR 0x22] @ s @ [CHR 0x22]) \<rparr>"

section \<open>Facts about the probe\<close>

lemma leadingSpace_Nil: "leadingSpace [] = 0"
  using leadingSpace_le [of "[]"] by simp

lemma trailingSpace_Nil: "trailingSpace [] = 0"
  using trailingSpace_le [of "[]"] by simp

lemma onlySpace_Nil: "onlySpace []"
  by (subst onlySpace.simps) simp

lemma TrimLeft_onlySpace: "onlySpace s \<Longrightarrow> TrimLeft s = []"
proof (induction s rule: TrimLeft.induct)
  case (1 s)
  show ?case
  proof (cases "s = []")
    case True
    then show ?thesis by (simp add: TrimLeft.simps leadingSpace_Nil)
  next
    case False
    from "1.prems" False have w: "leadingSpace s \<noteq> 0"
      by (subst (asm) onlySpace.simps) (simp split: if_splits)
    from "1.prems" False w have "onlySpace (drop (leadingSpace s) s)"
      by (subst (asm) onlySpace.simps) simp
    with "1.IH" w have "TrimLeft (drop (leadingSpace s) s) = []" by simp
    with w show ?thesis by (subst TrimLeft.simps) simp
  qed
qed

lemma TrimSpace_onlySpace: "onlySpace s \<Longrightarrow> TrimSpace s = []"
  by (simp add: TrimSpace_def TrimLeft_onlySpace TrimRight.simps trailingSpace_Nil)

lemma getDiskFormat_trace:
  "snd (getDiskFormat E disk tr) =
     tr @ [ExecCombinedOutput ''blkid'' [''-s'', ''TYPE'', ''-o'', ''value'', disk]]"
  by (simp add: getDiskFormat_def Let_def split: prod.splits)

lemma getDiskFormat_err: "snd (fst (getDiskFormat E disk tr)) = None"
  by (simp add: getDiskFormat_def Let_def split: prod.splits)

text \<open>
  Claim C9. \<^verbatim>\<open>getDiskFormat\<close> returns a \<^verbatim>\<open>nil\<close> error on every disk, in every host and
  after every history, whatever \<^verbatim>\<open>blkid\<close> answers. So the branch of
  \<^verbatim>\<open>formatAndMount\<close> that returns the probe's error is never taken: every call of
  \<^verbatim>\<open>formatAndMount\<close> goes on into the branch for an unformatted disk or into the one
  for a formatted disk.
\<close>

theorem getDiskFormat_never_fails:
  "snd (fst (getDiskFormat E disk tr)) = None \<and>
   formatAndMount E source target fsType opts tr =
     (if fst (fst (getDiskFormat E source tr)) = ''''
      then formatUnformatted E source target fsType (opts @ [''defaults''])
             (snd (getDiskFormat E source tr))
      else mountFormatted E source target fsType (opts @ [''defaults''])
             (fst (fst (getDiskFormat E source tr))) (snd (getDiskFormat E source tr)))"
proof
  show "snd (fst (getDiskFormat E disk tr)) = None" by (rule getDiskFormat_err)
next
  obtain existingFormat err tr1
    where g: "getDiskFormat E source tr = ((existingFormat, err), tr1)"
    by (metis surj_pair)
  with getDiskFormat_err [of E source tr] have "err = None" by simp
  with g show "formatAndMount E source target fsType opts tr =
     (if fst (fst (getDiskFormat E source tr)) = ''''
      then formatUnformatted E source target fsType (opts @ [''defaults''])
             (snd (getDiskFormat E source tr))
      else mountFormatted E source target fsType (opts @ [''defaults''])
             (fst (fst (getDiskFormat E source tr))) (snd (getDiskFormat E source tr)))"
    by (simp add: formatAndMount_def)
qed

theorem getDiskFormat_never_fails_witness:
  "snd (fst (getDiskFormat
          (scripted ('''', Some (Collaborator ''exit status 2'')) None None None (\<lambda>n. 7))
          ''/dev/sdb'' [])) = None"
  using getDiskFormat_never_fails
    [of "scripted ('''', Some (Collaborator ''exit status 2'')) None None None (\<lambda>n. 7)"
        "''/dev/sdb''" "[]"]
  by simp

text \<open>
  Claim C6. When \<^verbatim>\<open>blkid\<close> ends with an error, and when it ends without one but prints
  nothing or white space only, \<^verbatim>\<open>getDiskFormat\<close> returns the empty type and a
  \<^verbatim>\<open>nil\<close> error: a disk without a filesystem is not an error.
\<close>

theorem getDiskFormat_blank_device:
  assumes "exec_CombinedOutput E tr ''blkid'' [''-s'', ''TYPE'', ''-o'', ''value'', disk]
             = (out, err)"
    and "err \<noteq> None \<or> out = '''' \<or> onlySpace out"
  shows "fst (getDiskFormat E disk tr) = ('''', None)"
proof (cases "err = None")
  case False
  with assms(1) show ?thesis by (simp add: getDiskFormat_def)
next
  case True
  with assms(2) have "out = '''' \<or> onlySpace out" by simp
  with onlySpace_Nil have "onlySpace out" by auto
  then have "TrimSpace out = ''''" by (rule TrimSpace_onlySpace)
  with assms(1) True show ?thesis by (simp add: getDiskFormat_def)
qed

theorem getDiskFormat_blank_device_witness:
  "fst (getDiskFormat
          (scripted ('''', Some (Collaborator ''exit status 2'')) None None None (\<lambda>n. 7))
          ''/dev/sdb'' []) = ('''', None)
   \<and> fst (getDiskFormat
          (scripted ([CHR 0x20, CHR 0x09, CHR 0xC2, CHR 0xA0, CHR 0x0A], None) None None None
             (\<lambda>n. 7))
          ''/dev/sdb'' []) = ('''', None)
   \<and> fst (getDiskFormat (scripted ('''', None) None None None (\<lambda>n. 7)) ''/dev/sdb'' [])
       = ('''', None)"
proof -
  let ?F = "scripted ('''', Some (Collaborator ''exit status 2'')) None None None (\<lambda>n. 7)"
  let ?W = "scripted ([CHR 0x20, CHR 0x09, CHR 0xC2, CHR 0xA0, CHR 0x0A], None) None None None
              (\<lambda>n. 7)"
  let ?N = "scripted ('''', None) None None None (\<lambda>n. 7)"
  have f: "exec_CombinedOutput ?F [] ''blkid'' [''-s'', ''TYPE'', ''-o'', ''value'', ''/dev/sdb'']
      = ('''', Some (Collaborator ''exit status 2''))"
    by (simp add: scripted_def)
  have w: "exec_CombinedOutput ?W [] ''blkid'' [''-s'', ''TYPE'', ''-o'', ''value'', ''/dev/sdb'']
      = ([CHR 0x20, CHR 0x09, CHR 0xC2, CHR 0xA0, CHR 0x0A], None)"
    by (simp add: scripted_def)
  have n: "exec_CombinedOutput ?N [] ''blkid'' [''-s'', ''TYPE'', ''-o'', ''value'', ''/dev/sdb'']
      = ('''', None)"
    by (simp add: scripted_def)
  have s: "onlySpace [CHR 0x20, CHR 0x09, CHR 0xC2, CHR 0xA0, CHR 0x0A]"
    by code_simp
  from getDiskFormat_blank_device [OF f] getDiskFormat_blank_device [OF w]
       getDiskFormat_blank_device [OF n] s
  show ?thesis by simp
qed

section \<open>Facts about format and mount\<close>

lemma formatAndMount_formatted:
  assumes "fst (fst (getDiskFormat E source tr)) \<noteq> ''''"
  shows "formatAndMount E source target fsType opts tr =
     mountFormatted E source target fsType (opts @ [''defaults''])
       (fst (fst (getDiskFormat E source tr)))
       (tr @ [ExecCombinedOutput ''blkid'' [''-s'', ''TYPE'', ''-o'', ''value'', source]])"
proof -
  obtain existingFormat err tr1
    where g: "getDiskFormat E source tr = ((existingFormat, err), tr1)"
    by (metis surj_pair)
  with getDiskFormat_err [of E source tr] getDiskFormat_trace [of E source tr]
  have "err = None"
    "tr1 = tr @ [ExecCombinedOutput ''blkid'' [''-s'', ''TYPE'', ''-o'', ''value'', source]]"
    by simp_all
  with g assms show ?thesis by (simp add: formatAndMount_def)
qed

lemma formatAndMount_unformatted:
  assumes "fst (fst (getDiskFormat E source tr)) = ''''"
  shows "formatAndMount E source target fsType opts tr =
     formatUnformatted E source target fsType (opts @ [''defaults''])
       (tr @ [ExecCombinedOutput ''blkid'' [''-s'', ''TYPE'', ''-o'', ''value'', source]])"
proof -
  obtain existingFormat err tr1
    where g: "getDiskFormat E source tr = ((existingFormat, err), tr1)"
    by (metis surj_pair)
  with getDiskFormat_err [of E source tr] getDiskFormat_trace [of E source tr]
  have "err = None"
    "tr1 = tr @ [ExecCombinedOutput ''blkid'' [''-s'', ''TYPE'', ''-o'', ''value'', source]]"
    by simp_all
  with g assms show ?thesis by (simp add: formatAndMount_def)
qed

lemma mountFormatted_trace:
  "snd (mountFormatted E source target fsType opts existingFormat tr) =
     tr @ [FsMount source target fsType opts]"
  by (simp add: mountFormatted_def Let_def split: option.splits)

lemma formatUnformatted_trace:
  "snd (formatUnformatted E source target fsType opts tr) =
     (let effective = (if fsType = '''' then ''ext4'' else fsType);
          args = (if effective = ''ext4'' \<or> effective = ''ext3'' then [''-F'', source]
                  else [source])
      in tr @ ExecRun (''mkfs.'' @ effective) args #
           (case exec_Run E tr (''mkfs.'' @ effective) args of
              Some e \<Rightarrow> []
            | None \<Rightarrow> [FsMount source target effective opts]))"
  by (simp add: formatUnformatted_def Let_def split: option.splits)

lemma formatAndMount_trace:
  "snd (formatAndMount E source target fsType opts tr) =
     tr @ ExecCombinedOutput ''blkid'' [''-s'', ''TYPE'', ''-o'', ''value'', source] #
       (if fst (fst (getDiskFormat E source tr)) \<noteq> ''''
        then [FsMount source target fsType (opts @ [''defaults''])]
        else
          let effective = (if fsType = '''' then ''ext4'' else fsType);
              args = (if effective = ''ext4'' \<or> effective = ''ext3'' then [''-F'', source]
                      else [source])
          in ExecRun (''mkfs.'' @ effective) args #
               (case exec_Run E
                       (tr @ [ExecCombinedOutput ''blkid''
                                [''-s'', ''TYPE'', ''-o'', ''value'', source]])
                       (''mkfs.'' @ effective) args of
                  Some e \<Rightarrow> []
                | None \<Rightarrow> [FsMount source target effective (opts @ [''defaults''])]))"
proof (cases "fst (fst (getDiskFormat E source tr)) = ''''")
  case True
  then show ?thesis
    by (simp add: formatAndMount_unformatted formatUnformatted_trace Let_def)
next
  case False
  then show ?thesis
    by (simp add: formatAndMount_formatted mountFormatted_trace)
qed

text \<open>
  Claim C1. When the probe reports a filesystem type that is not empty,
  \<^verbatim>\<open>formatAndMount\<close> makes exactly two calls, the probe and one mount; no
  \<^verbatim>\<open>exec.Command(...).Run()\<close>, the only way in which the file starts \<^verbatim>\<open>mkfs\<close>, is
  among the calls of this invocation. This holds for every requested type, all options
  and every host, so whether or not the mount succeeds.
\<close>

theorem formatAndMount_no_format_when_formatted:
  assumes "fst (fst (getDiskFormat E source tr)) \<noteq> ''''"
  shows "snd (formatAndMount E source target fsType opts tr) =
           tr @ [ExecCombinedOutput ''blkid'' [''-s'', ''TYPE'', ''-o'', ''value'', source],
                 FsMount source target fsType (opts @ [''defaults''])]
         \<and> (\<forall>cmd args. ExecRun cmd args
               \<notin> set (drop (length tr) (snd (formatAndMount E source target fsType opts tr))))"
  using assms by (simp add: formatAndMount_formatted mountFormatted_trace)

theorem formatAndMount_no_format_when_formatted_witness:
  "snd (formatAndMount
          (scripted (''xfs'' @ [CHR 0x0A], None) None (Some (Collaborator ''exit status 32''))
             None (\<lambda>n. 7))
          ''/dev/sdb'' ''/mnt'' ''ext4'' [''ro''] [])
     = [ExecCombinedOutput ''blkid'' [''-s'', ''TYPE'', ''-o'', ''value'', ''/dev/sdb''],
        FsMount ''/dev/sdb'' ''/mnt'' ''ext4'' [''ro'', ''defaults'']]
   \<and> ExecRun ''mkfs.ext4'' [''-F'', ''/dev/sdb'']
        \<notin> set (snd (formatAndMount
          (scripted (''xfs'' @ [CHR 0x0A], None) None (Some (Collaborator ''exit status 32''))
             None (\<lambda>n. 7))
          ''/dev/sdb'' ''/mnt'' ''ext4'' [''ro''] []))"
proof -
  let ?E = "scripted (''xfs'' @ [CHR 0x0A], None) None (Some (Collaborator ''exit status 32''))
              None (\<lambda>n. 7)"
  have h: "fst (fst (getDiskFormat ?E ''/dev/sdb'' [])) \<noteq> ''''"
    by code_simp
  from formatAndMount_no_format_when_formatted [OF h, of "''/mnt''" "''ext4''" "[''ro'']"]
  show ?thesis by simp
qed

text \<open>
  Claim C2. The disk has a filesystem (the probe's type \<open>existingFormat\<close> is not
  empty) and the mount fails with \<open>mountErr\<close>. If the requested type is empty or is
  \<open>existingFormat\<close>, \<^verbatim>\<open>formatAndMount\<close> returns \<open>mountErr\<close> itself. Otherwise it
  returns a new error whose text is \<^verbatim>\<open>failed to mount volume as\<close>, the requested type
  as \<^verbatim>\<open>%q\<close> prints it, \<^verbatim>\<open>; already contains\<close>, the type on the disk,
  \<^verbatim>\<open>: error:\<close> and the text of \<open>mountErr\<close>.
\<close>

theorem formatAndMount_mount_failure_classified:
  assumes "fst (fst (getDiskFormat E source tr)) = existingFormat"
    and "existingFormat \<noteq> ''''"
    and "fs_mount E (snd (getDiskFormat E source tr)) source target fsType
           (opts @ [''defaults'']) = Some mountErr"
  shows "fst (formatAndMount E source target fsType opts tr) =
           (if fsType = '''' \<or> fsType = existingFormat then Some mountErr
            else Some (Errorf (''failed to mount volume as '' @ fmt_q E fsType
                   @ ''; already contains '' @ existingFormat
                   @ '': error: '' @ Error mountErr)))"
  using assms
  by (simp add: formatAndMount_formatted mountFormatted_def getDiskFormat_trace)

theorem formatAndMount_mount_failure_classified_witness:
  "fst (formatAndMount
          (scripted (''xfs'' @ [CHR 0x0A], None) None (Some (Collaborator ''exit status 32''))
             None (\<lambda>n. 7))
          ''/dev/sdb'' ''/mnt'' ''ext4'' [''ro''] [])
     = Some (Errorf (''failed to mount volume as '' @ [CHR 0x22] @ ''ext4'' @ [CHR 0x22]
               @ ''; already contains xfs: error: exit status 32''))
   \<and> fst (formatAndMount
          (scripted (''xfs'' @ [CHR 0x0A], None) None (Some (Collaborator ''exit status 32''))
             None (\<lambda>n. 7))
          ''/dev/sdb'' ''/mnt'' ''xfs'' [''ro''] [])
     = Some (Collaborator ''exit status 32'')
   \<and> fst (formatAndMount
          (scripted (''xfs'' @ [CHR 0x0A], None) None (Some (Collaborator ''exit status 32''))
             None (\<lambda>n. 7))
          ''/dev/sdb'' ''/mnt'' '''' [''ro''] [])
     = Some (Collaborator ''exit status 32'')"
proof -
  let ?E = "scripted (''xfs'' @ [CHR 0x0A], None) None (Some (Collaborator ''exit status 32''))
              None (\<lambda>n. 7)"
  have p: "fst (fst (getDiskFormat ?E ''/dev/sdb'' [])) = ''xfs''"
    by code_simp
  have n: "''xfs'' \<noteq> ''''"
    by simp
  have m: "fs_mount ?E (snd (getDiskFormat ?E ''/dev/sdb'' [])) ''/dev/sdb'' ''/mnt'' fsType
             ([''ro''] @ [''defaults'']) = Some (Collaborator ''exit status 32'')" for fsType
    by (simp add: scripted_def)
  have q: "fmt_q ?E ''ext4'' = [CHR 0x22] @ ''ext4'' @ [CHR 0x22]"
    by (simp add: scripted_def)
  from formatAndMount_mount_failure_classified [OF p n m [of "''ext4''"]]
       formatAndMount_mount_failure_classified [OF p n m [of "''xfs''"]]
       formatAndMount_mount_failure_classified [OF p n m [of "''''"]] q
  show ?thesis by simp
qed

text \<open>
  Claim C7. The disk is unformatted (the probe's type is empty). The effective type is
  the requested one, or \<^verbatim>\<open>ext4\<close> when none is requested; \<^verbatim>\<open>mkfs.<type>\<close> is run with
  \<^verbatim>\<open>-F\<close> and the device for \<^verbatim>\<open>ext4\<close> and \<^verbatim>\<open>ext3\<close>, with the device alone for
  every other type. If it fails, its error is returned and nothing is mounted. If it
  succeeds, the device is mounted with the effective type and the options (the caller's,
  then \<^verbatim>\<open>defaults\<close>), and the result of \<^verbatim>\<open>formatAndMount\<close> is what the mount returns.
\<close>

theorem formatAndMount_unformatted_path:
  assumes "fst (fst (getDiskFormat E source tr)) = ''''"
  shows "formatAndMount E source target fsType opts tr =
           (let tr1 = tr @ [ExecCombinedOutput ''blkid''
                              [''-s'', ''TYPE'', ''-o'', ''value'', source]];
                effective = (if fsType = '''' then ''ext4'' else fsType);
                args = (if effective = ''ext4'' \<or> effective = ''ext3'' then [''-F'', source]
                        else [source]);
                tr2 = tr1 @ [ExecRun (''mkfs.'' @ effective) args]
            in case exec_Run E tr1 (''mkfs.'' @ effective) args of
                 Some e \<Rightarrow> (Some e, tr2)
               | None \<Rightarrow>
                   (fs_mount E tr2 source target effective (opts @ [''defaults'']),
                    tr2 @ [FsMount source target effective (opts @ [''defaults''])]))"
  using assms
  by (simp add: formatAndMount_unformatted formatUnformatted_def Let_def
        cong: option.case_cong)

theorem formatAndMount_unformatted_path_witness:
  "formatAndMount
     (scripted ('''', Some (Collaborator ''exit status 2'')) None None None (\<lambda>n. 7))
     ''/dev/sdb'' ''/mnt'' '''' [''ro''] []
   = (None,
      [ExecCombinedOutput ''blkid'' [''-s'', ''TYPE'', ''-o'', ''value'', ''/dev/sdb''],
       ExecRun ''mkfs.ext4'' [''-F'', ''/dev/sdb''],
       FsMount ''/dev/sdb'' ''/mnt'' ''ext4'' [''ro'', ''defaults'']])
   \<and> formatAndMount
     (scripted ('''', Some (Collaborator ''exit status 2'')) (Some (Collaborator ''exit status 1''))
        None None (\<lambda>n. 7))
     ''/dev/sdb'' ''/mnt'' ''xfs'' [''ro''] []
   = (Some (Collaborator ''exit status 1''),
      [ExecCombinedOutput ''blkid'' [''-s'', ''TYPE'', ''-o'', ''value'', ''/dev/sdb''],
       ExecRun ''mkfs.xfs'' [''/dev/sdb'']])"
proof -
  let ?A = "scripted ('''', Some (Collaborator ''exit status 2'')) None None None (\<lambda>n. 7)"
  let ?B = "scripted ('''', Some (Collaborator ''exit status 2''))
              (Some (Collaborator ''exit status 1'')) None None (\<lambda>n. 7)"
  have a: "fst (fst (getDiskFormat ?A ''/dev/sdb'' [])) = ''''"
    by code_simp
  have b: "fst (fst (getDiskFormat ?B ''/dev/sdb'' [])) = ''''"
    by code_simp
  from formatAndMount_unformatted_path [OF a, of "''/mnt''" "''''" "[''ro'']"]
       formatAndMount_unformatted_path [OF b, of "''/mnt''" "''xfs''" "[''ro'']"]
  show ?thesis by (simp add: scripted_def Let_def)
qed

text \<open>
  Claim C10. \<^verbatim>\<open>formatAndMount\<close> appends \<^verbatim>\<open>defaults\<close> to the caller's options before
  anything else. The calls of one invocation are the probe and then, for a formatted
  disk, one mount; for an unformatted disk, \<^verbatim>\<open>mkfs\<close> and, if that succeeds, one mount.
  Every mount among them, on either path, is given the caller's options followed by
  \<^verbatim>\<open>defaults\<close>.
\<close>

theorem formatAndMount_appends_defaults:
  "snd (formatAndMount E source target fsType opts tr) =
     tr @ ExecCombinedOutput ''blkid'' [''-s'', ''TYPE'', ''-o'', ''value'', source] #
       (if fst (fst (getDiskFormat E source tr)) \<noteq> ''''
        then [FsMount source target fsType (opts @ [''defaults''])]
        else
          let effective = (if fsType = '''' then ''ext4'' else fsType);
              args = (if effective = ''ext4'' \<or> effective = ''ext3'' then [''-F'', source]
                      else [source])
          in ExecRun (''mkfs.'' @ effective) args #
               (case exec_Run E
                       (tr @ [ExecCombinedOutput ''blkid''
                                [''-s'', ''TYPE'', ''-o'', ''value'', source]])
                       (''mkfs.'' @ effective) args of
                  Some e \<Rightarrow> []
                | None \<Rightarrow> [FsMount source target effective (opts @ [''defaults''])]))
   \<and> (\<forall>c \<in> set (drop (length tr) (snd (formatAndMount E source target fsType opts tr))).
        \<forall>s t f os. c = FsMount s t f os \<longrightarrow> os = opts @ [''defaults''])"
proof
  show "\<forall>c \<in> set (drop (length tr) (snd (formatAndMount E source target fsType opts tr))).
        \<forall>s t f os. c = FsMount s t f os \<longrightarrow> os = opts @ [''defaults'']"
    by (simp add: formatAndMount_trace Let_def split: option.splits)
qed (rule formatAndMount_trace)

theorem formatAndMount_appends_defaults_witness:
  "drop (length ([] :: nat call list)) (snd (formatAndMount
     (scripted ('''', Some (Collaborator ''exit status 2'')) None None None (\<lambda>n. 7))
     ''/dev/sdb'' ''/mnt'' '''' [''ro''] []))
   = [ExecCombinedOutput ''blkid'' [''-s'', ''TYPE'', ''-o'', ''value'', ''/dev/sdb''],
      ExecRun ''mkfs.ext4'' [''-F'', ''/dev/sdb''],
      FsMount ''/dev/sdb'' ''/mnt'' ''ext4'' ([''ro''] @ [''defaults''])]"
proof -
  let ?A = "scripted ('''', Some (Collaborator ''exit status 2'')) None None None (\<lambda>n. 7)"
  have a: "fst (fst (getDiskFormat ?A ''/dev/sdb'' [])) = ''''"
    by code_simp
  from formatAndMount_appends_defaults
         [of ?A "''/dev/sdb''" "''/mnt''" "''''" "[''ro'']" "[]"] a
  show ?thesis by (simp add: scripted_def Let_def)
qed

section \<open>Facts about the bind mount\<close>

text \<open>
  Claim C8. If the first call of \<^verbatim>\<open>fs.doMount\<close>, the one with the option \<^verbatim>\<open>bind\<close>,
  fails, \<^verbatim>\<open>bindMount\<close> returns that error as it is, and the first call is the only call
  it has made.
\<close>

theorem bindMount_bind_fails:
  assumes "fs_doMount E tr ''mount'' source target '''' [''bind''] = Some e"
  shows "bindMount E source target opts tr =
           (Some e, tr @ [FsDoMount ''mount'' source target '''' [''bind'']])"
  using assms by (simp add: bindMount_def)

theorem bindMount_bind_fails_witness:
  "bindMount (scripted ('''', None) None None (Some (Collaborator ''exit status 32'')) (\<lambda>n. 7))
     ''/data'' ''/mnt/data'' [''remount'', ''ro''] []
   = (Some (Collaborator ''exit status 32''),
      [FsDoMount ''mount'' ''/data'' ''/mnt/data'' '''' [''bind'']])"
proof -
  let ?E = "scripted ('''', None) None None (Some (Collaborator ''exit status 32'')) (\<lambda>n. 7)"
  have f: "fs_doMount ?E [] ''mount'' ''/data'' ''/mnt/data'' '''' [''bind'']
      = Some (Collaborator ''exit status 32'')"
    by (simp add: scripted_def)
  from bindMount_bind_fails [OF f, of "[''remount'', ''ro'']"]
  show ?thesis by simp
qed

text \<open>
  Claim C3, as amended. The first call of \<^verbatim>\<open>bindMount\<close> is always
  \<^verbatim>\<open>fs.doMount\<close> with the command \<^verbatim>\<open>mount\<close>, the source, the target, no filesystem
  type and the single option \<^verbatim>\<open>bind\<close>. If it succeeds, \<^verbatim>\<open>bindMount\<close> calls
  \<^verbatim>\<open>fs.doMount\<close> once more, with the same command, source, target and empty type and
  with exactly the options it was given, and returns what this second call returns.
  \<^verbatim>\<open>bindMount\<close> adds no option of its own: \<^verbatim>\<open>bindRemountOpts\<close> is not used in it.
\<close>

theorem bindMount_two_steps:
  "take 1 (drop (length tr) (snd (bindMount E source target opts tr)))
     = [FsDoMount ''mount'' source target '''' [''bind'']]
   \<and> (fs_doMount E tr ''mount'' source target '''' [''bind''] = None \<longrightarrow>
        bindMount E source target opts tr =
          (fs_doMount E (tr @ [FsDoMount ''mount'' source target '''' [''bind'']])
             ''mount'' source target '''' opts,
           tr @ [FsDoMount ''mount'' source target '''' [''bind''],
                 FsDoMount ''mount'' source target '''' opts]))"
  by (simp add: bindMount_def Let_def split: option.splits)

theorem bindMount_two_steps_witness:
  "bindMount (scripted ('''', None) None None None (\<lambda>n. 7)) ''/data'' ''/mnt/data'' [''ro''] []
   = (None,
      [FsDoMount ''mount'' ''/data'' ''/mnt/data'' '''' [''bind''],
       FsDoMount ''mount'' ''/data'' ''/mnt/data'' '''' [''ro'']])"
proof -
  let ?E = "scripted ('''', None) None None None (\<lambda>n. 7)"
  have f: "fs_doMount ?E [] ''mount'' ''/data'' ''/mnt/data'' '''' [''bind''] = None"
    by (simp add: scripted_def)
  from bindMount_two_steps [of "[]" ?E "''/data''" "''/mnt/data''" "[''ro'']"] f
  show ?thesis by (simp add: scripted_def)
qed

text \<open>The claim as it was stated fails: called with the option \<^verbatim>\<open>ro\<close> alone, on a host
  where every mount succeeds, \<^verbatim>\<open>bindMount\<close> makes its second call with \<^verbatim>\<open>ro\<close> alone,
  not with \<^verbatim>\<open>remount\<close> and \<^verbatim>\<open>ro\<close>; none of its calls carries \<^verbatim>\<open>remount\<close>.\<close>

theorem bindMount_remount_counterexample:
  "snd (bindMount (scripted ('''', None) None None None (\<lambda>n. 7))
          ''/data'' ''/mnt/data'' [''ro''] [])
     = [FsDoMount ''mount'' ''/data'' ''/mnt/data'' '''' [''bind''],
        FsDoMount ''mount'' ''/data'' ''/mnt/data'' '''' [''ro'']]
   \<and> snd (bindMount (scripted ('''', None) None None None (\<lambda>n. 7))
          ''/data'' ''/mnt/data'' [''ro''] [])
     \<noteq> [FsDoMount ''mount'' ''/data'' ''/mnt/data'' '''' [''bind''],
        FsDoMount ''mount'' ''/data'' ''/mnt/data'' '''' (bindRemountOpts @ [''ro''])]
   \<and> \<not> (\<exists>os. FsDoMount ''mount'' ''/data'' ''/mnt/data'' '''' os
              \<in> set (snd (bindMount (scripted ('''', None) None None None (\<lambda>n. 7))
                              ''/data'' ''/mnt/data'' [''ro''] []))
            \<and> ''remount'' \<in> set os)"
  by (auto simp add: bindMount_def scripted_def bindRemountOpts_def)

section \<open>Facts about the mount table\<close>

text \<open>
  Claim C4. Four reads of the mount table in a row succeed, the first for the
  fingerprint alone and the next three in full, and each fingerprint differs from the
  one before. Then \<^verbatim>\<open>getMounts\<close> ends right after the fourth read, that is after
  \<^verbatim>\<open>procMountsRetries\<close> = 3 rounds of its loop, and returns no entries and the error
  whose text names \<^verbatim>\<open>/proc/self/mountinfo\<close> and the 3 tries. \<^verbatim>\<open>getMounts\<close> is a total
  function: it returns in every host.
\<close>

theorem getMounts_retry_bound:
  assumes "readProcMounts E procMountsPath False tr0 = ((m0, h0, None), tr1)"
    and "readProcMounts E procMountsPath True tr1 = ((m1, h1, None), tr2)"
    and "readProcMounts E procMountsPath True tr2 = ((m2, h2, None), tr3)"
    and "readProcMounts E procMountsPath True tr3 = ((m3, h3, None), tr4)"
    and "h0 \<noteq> h1" and "h1 \<noteq> h2" and "h2 \<noteq> h3"
  shows "getMounts E tr0 =
           (([], Some (Errorf
               ''failed to get a consistent snapshot of /proc/self/mountinfo after 3 tries'')),
            tr4)"
proof -
  have d: "fmt_d procMountsRetries = ''3''"
    by (subst fmt_d.simps) (simp add: procMountsRetries_def digit_def)
  have l3: "getMounts_loop E 3 h3 tr4 =
      (([], Some (Errorf
         ''failed to get a consistent snapshot of /proc/self/mountinfo after 3 tries'')), tr4)"
    by (subst getMounts_loop.simps) (simp add: d procMountsPath_def, simp add: procMountsRetries_def)
  have l2: "getMounts_loop E 2 h2 tr3 = getMounts_loop E 3 h3 tr4"
    using assms(4,7)
    by (subst getMounts_loop.simps) (simp add: procMountsRetries_def eval_nat_numeral)
  have l1: "getMounts_loop E 1 h1 tr2 = getMounts_loop E 2 h2 tr3"
    using assms(3,6)
    by (subst getMounts_loop.simps) (simp add: procMountsRetries_def eval_nat_numeral)
  have l0: "getMounts_loop E 0 h0 tr1 = getMounts_loop E 1 h1 tr2"
    using assms(2,5)
    by (subst getMounts_loop.simps) (simp add: procMountsRetries_def eval_nat_numeral)
  have "getMounts_loop E 0 h0 tr1 =
      (([], Some (Errorf
         ''failed to get a consistent snapshot of /proc/self/mountinfo after 3 tries'')), tr4)"
    by (simp only: l0 l1 l2 l3)
  with assms(1) show ?thesis
    by (simp add: getMounts_def)
qed

theorem getMounts_retry_bound_witness:
  "getMounts (scripted ('''', None) None None None (\<lambda>n. of_nat n)) []
   = (([], Some (Errorf
         ''failed to get a consistent snapshot of /proc/self/mountinfo after 3 tries'')),
      [OsOpen ''/proc/self/mountinfo'', ReadFrom 0 True, FileClose 0,
       OsOpen ''/proc/self/mountinfo'', ReadFrom 3 False, FileClose 3,
       OsOpen ''/proc/self/mountinfo'', ReadFrom 6 False, FileClose 6,
       OsOpen ''/proc/self/mountinfo'', ReadFrom 9 False, FileClose 9])"
proof -
  let ?E = "scripted ('''', None) None None None (\<lambda>n. of_nat n)"
  let ?t1 = "[OsOpen ''/proc/self/mountinfo'', ReadFrom 0 True, FileClose (0::nat)]"
  let ?t2 = "?t1 @ [OsOpen ''/proc/self/mountinfo'', ReadFrom 3 False, FileClose 3]"
  let ?t3 = "?t2 @ [OsOpen ''/proc/self/mountinfo'', ReadFrom 6 False, FileClose 6]"
  let ?t4 = "?t3 @ [OsOpen ''/proc/self/mountinfo'', ReadFrom 9 False, FileClose 9]"
  have r0: "readProcMounts ?E procMountsPath False [] = (([], 1, None), ?t1)"
    by (simp add: readProcMounts_def scripted_def procMountsPath_def)
  have r1: "readProcMounts ?E procMountsPath True ?t1
      = (([''rootfs / rootfs rw''], 4, None), ?t2)"
    by (simp add: readProcMounts_def scripted_def procMountsPath_def)
  have r2: "readProcMounts ?E procMountsPath True ?t2
      = (([''rootfs / rootfs rw''], 7, None), ?t3)"
    by (simp add: readProcMounts_def scripted_def procMountsPath_def)
  have r3: "readProcMounts ?E procMountsPath True ?t3
      = (([''rootfs / rootfs rw''], 10, None), ?t4)"
    by (simp add: readProcMounts_def scripted_def procMountsPath_def)
  have d: "(1 :: 32 word) \<noteq> 4" "(4 :: 32 word) \<noteq> 7" "(7 :: 32 word) \<noteq> 10"
    by simp_all
  from getMounts_retry_bound [OF r0 r1 r2 r3 d]
  show ?thesis by simp
qed

text \<open>
  Claim C5. The first read of the mount table (for the fingerprint alone) and the
  second read (in full) succeed with the same fingerprint. Then \<^verbatim>\<open>getMounts\<close> ends
  right after the second read, in the first round of its loop, with a \<^verbatim>\<open>nil\<close> error
  and the entries that this second read parsed.
\<close>

theorem getMounts_stable_table:
  assumes "readProcMounts E procMountsPath False tr0 = ((m0, h, None), tr1)"
    and "readProcMounts E procMountsPath True tr1 = ((m1, h, None), tr2)"
  shows "getMounts E tr0 = ((m1, None), tr2)"
proof -
  have "getMounts_loop E 0 h tr1 = ((m1, None), tr2)"
    using assms(2)
    by (subst getMounts_loop.simps) (simp add: procMountsRetries_def eval_nat_numeral)
  with assms(1) show ?thesis by (simp add: getMounts_def)
qed

theorem getMounts_stable_table_witness:
  "getMounts (scripted ('''', None) None None None (\<lambda>n. 7)) []
   = (([''rootfs / rootfs rw''], None),
      [OsOpen ''/proc/self/mountinfo'', ReadFrom 0 True, FileClose 0,
       OsOpen ''/proc/self/mountinfo'', ReadFrom 3 False, FileClose 3])"
proof -
  let ?E = "scripted ('''', None) None None None (\<lambda>n. 7)"
  let ?t1 = "[OsOpen ''/proc/self/mountinfo'', ReadFrom 0 True, FileClose (0::nat)]"
  let ?t2 = "?t1 @ [OsOpen ''/proc/self/mountinfo'', ReadFrom 3 False, FileClose 3]"
  have r0: "readProcMounts ?E procMountsPath False [] = (([], 7, None), ?t1)"
    by (simp add: readProcMounts_def scripted_def procMountsPath_def)
  have r1: "readProcMounts ?E procMountsPath True ?t1
      = (([''rootfs / rootfs rw''], 7, None), ?t2)"
    by (simp add: readProcMounts_def scripted_def procMountsPath_def)
  from getMounts_stable_table [OF r0 r1]
  show ?thesis by simp
qed

end
